theory Spec2Isabelle
  imports Complex_Main
begin

section \<open>Password Security Lab: the analyzer of \<^verbatim>\<open>password_analyzer.py\<close>\<close>

text \<open>
  A shallow embedding of the class \<^verbatim>\<open>PasswordAnalyzer\<close>. Conventions:
  \<^item> A password is a \<open>string\<close>; each \<open>char\<close> stands for one code point below 256
    (ASCII and Latin-1), so \<open>length\<close> is Python's \<^verbatim>\<open>len\<close>. The character classes,
    \<^verbatim>\<open>str.lower\<close> and \<^verbatim>\<open>str.isalpha\<close> below are the ones Python has on these code points.
  \<^item> Python floats are modelled by \<open>real\<close>: the score is a sum of multiples of one half,
    which floats hold exactly, and the entropy is only compared with four thresholds.
  \<^item> Python integers of unbounded size are \<open>nat\<close> where they cannot be negative.
  \<^item> Every exception the code can raise is a value of \<open>error\<close>, also the
    \<^verbatim>\<open>OverflowError\<close> of the true division of an integer too large for a float.
\<close>

subsection \<open>Characters and strings as Python sees them\<close>

definition code_point :: "char \<Rightarrow> nat" where
  "code_point c = of_char c"

text \<open>The regular expression classes \<^verbatim>\<open>[a-z]\<close>, \<^verbatim>\<open>[A-Z]\<close> and \<^verbatim>\<open>\d\<close> (lines 53 to 55).
  Below code point 256 the only decimal digits are \<^verbatim>\<open>0\<close> to \<^verbatim>\<open>9\<close>.\<close>

definition re_lower :: "char \<Rightarrow> bool" where
  "re_lower c = (97 \<le> code_point c \<and> code_point c \<le> 122)"

definition re_upper :: "char \<Rightarrow> bool" where
  "re_upper c = (65 \<le> code_point c \<and> code_point c \<le> 90)"

definition re_digit :: "char \<Rightarrow> bool" where
  "re_digit c = (48 \<le> code_point c \<and> code_point c \<le> 57)"

text \<open>The bracket expression of line 56, character by character, in the order of the
  source: the quote characters and the backslash are written by their codes.\<close>

definition special_chars :: "char list" where
  "special_chars =
     ''!@#$%^&*()_+-=[]{};:'' @ [CHR 0x27, CHR 0x22] @ '',.<>?/'' @ [CHR 0x5C] @ ''|`~''"

definition re_special :: "char \<Rightarrow> bool" where
  "re_special c = (c \<in> set special_chars)"

text \<open>\<^verbatim>\<open>str.lower\<close>: the letters A to Z, and the upper-case letters of Latin-1
  (code points 192 to 222 without the multiplication sign 215), move up by 32.\<close>

definition lower_table :: "(char \<times> char) list" where
  "lower_table =
     zip ''ABCDEFGHIJKLMNOPQRSTUVWXYZ'' ''abcdefghijklmnopqrstuvwxyz'' @
     zip [CHR 0xC0, CHR 0xC1, CHR 0xC2, CHR 0xC3, CHR 0xC4, CHR 0xC5, CHR 0xC6, CHR 0xC7,
          CHR 0xC8, CHR 0xC9, CHR 0xCA, CHR 0xCB, CHR 0xCC, CHR 0xCD, CHR 0xCE, CHR 0xCF,
          CHR 0xD0, CHR 0xD1, CHR 0xD2, CHR 0xD3, CHR 0xD4, CHR 0xD5, CHR 0xD6,
          CHR 0xD8, CHR 0xD9, CHR 0xDA, CHR 0xDB, CHR 0xDC, CHR 0xDD, CHR 0xDE]
         [CHR 0xE0, CHR 0xE1, CHR 0xE2, CHR 0xE3, CHR 0xE4, CHR 0xE5, CHR 0xE6, CHR 0xE7,
          CHR 0xE8, CHR 0xE9, CHR 0xEA, CHR 0xEB, CHR 0xEC, CHR 0xED, CHR 0xEE, CHR 0xEF,
          CHR 0xF0, CHR 0xF1, CHR 0xF2, CHR 0xF3, CHR 0xF4, CHR 0xF5, CHR 0xF6,
          CHR 0xF8, CHR 0xF9, CHR 0xFA, CHR 0xFB, CHR 0xFC, CHR 0xFD, CHR 0xFE]"

definition char_lower :: "char \<Rightarrow> char" where
  "char_lower c = (case map_of lower_table c of Some d \<Rightarrow> d | None \<Rightarrow> c)"

definition str_lower :: "string \<Rightarrow> string" where
  "str_lower s = map char_lower s"

text \<open>\<^verbatim>\<open>str.isalpha\<close>: the string is not empty and every character is a letter. The
  letters below 256 are A to Z, a to z, the two ordinal indicators, the micro sign and
  the Latin-1 letters.\<close>

definition char_isalpha :: "char \<Rightarrow> bool" where
  "char_isalpha c =
     (let n = code_point c in
        (65 \<le> n \<and> n \<le> 90) \<or> (97 \<le> n \<and> n \<le> 122) \<or> n = 170 \<or> n = 181 \<or> n = 186 \<or>
        (192 \<le> n \<and> n \<le> 214) \<or> (216 \<le> n \<and> n \<le> 246) \<or> (248 \<le> n \<and> n \<le> 255))"

definition str_isalpha :: "string \<Rightarrow> bool" where
  "str_isalpha s = (s \<noteq> [] \<and> list_all char_isalpha s)"

text \<open>\<^verbatim>\<open>re.search\<close> with a one-character class: some character of the string is in it.\<close>

definition re_search_class :: "(char \<Rightarrow> bool) \<Rightarrow> string \<Rightarrow> bool" where
  "re_search_class cls s = list_ex cls s"

text \<open>\<^verbatim>\<open>re.search\<close> with a literal: the literal occurs somewhere in the string.\<close>

fun starts_with :: "string \<Rightarrow> string \<Rightarrow> bool" where
  "starts_with s [] = True"
| "starts_with [] (p # ps) = False"
| "starts_with (c # cs) (p # ps) = (c = p \<and> starts_with cs ps)"

fun re_search_literal :: "string \<Rightarrow> string \<Rightarrow> bool" where
  "re_search_literal lit [] = starts_with [] lit"
| "re_search_literal lit (c # cs) = (starts_with (c # cs) lit \<or> re_search_literal lit cs)"

text \<open>\<^verbatim>\<open>re.search\<close> with an alternation of literals \<^verbatim>\<open>(l1|l2|...)\<close>.\<close>

definition re_search_alternatives :: "string list \<Rightarrow> string \<Rightarrow> bool" where
  "re_search_alternatives lits s = list_ex (\<lambda>lit. re_search_literal lit s) lits"

text \<open>\<^verbatim>\<open>re.search(r'(.)\1{2,}', s)\<close>: three equal characters in a row. The dot matches
  every character but the line feed.\<close>

fun re_search_repeat :: "string \<Rightarrow> bool" where
  "re_search_repeat (a # b # c # rest) =
     ((a \<noteq> CHR 0x0A \<and> b = a \<and> c = a) \<or> re_search_repeat (b # c # rest))"
| "re_search_repeat rest = False"

subsection \<open>The class constants (lines 26 to 40)\<close>

definition COMMON_PASSWORDS :: "string list" where
  "COMMON_PASSWORDS =
     [''password'', ''123456'', ''12345678'', ''qwerty'', ''abc123'', ''monkey'',
      ''letmein'', ''trustno1'', ''dragon'', ''baseball'', ''iloveyou'', ''master'',
      ''sunshine'', ''ashley'', ''bailey'', ''shadow'', ''superman'', ''qazwsx'']"

definition is_common :: "string \<Rightarrow> bool" where
  "is_common pw = (str_lower pw \<in> set COMMON_PASSWORDS)"

definition ATTACK_SPEEDS :: "(string \<times> real) list" where
  "ATTACK_SPEEDS =
     [(''plaintext'', 10 ^ 15),
      (''md5'', 18 * 10 ^ 10),
      (''sha256'', 65 * 10 ^ 9),
      (''bcrypt'', 85 * 10 ^ 3),
      (''argon2'', 10 ^ 3)]"

subsection \<open>The analysis done by the constructor (lines 42 to 147)\<close>

record char_sets =
  lowercase :: bool
  uppercase :: bool
  digits :: bool
  special :: bool

definition identify_char_sets :: "string \<Rightarrow> char_sets" where
  "identify_char_sets pw =
     \<lparr> lowercase = re_search_class re_lower pw,
       uppercase = re_search_class re_upper pw,
       digits = re_search_class re_digit pw,
       special = re_search_class re_special pw \<rparr>"

text \<open>The sum of lines 61 to 69, which lines 155 to 163 repeat.\<close>

definition charset_size :: "char_sets \<Rightarrow> nat" where
  "charset_size cs =
     (if lowercase cs then 26 else 0) + (if uppercase cs then 26 else 0) +
     (if digits cs then 10 else 0) + (if special cs then 32 else 0)"

definition calculate_entropy :: "nat \<Rightarrow> char_sets \<Rightarrow> real" where
  "calculate_entropy n cs =
     (if charset_size cs = 0 then 0 else real n * log 2 (real (charset_size cs)))"

text \<open>\<^verbatim>\<open>sum(self.char_sets.values())\<close>: the number of classes present.\<close>

definition char_type_count :: "char_sets \<Rightarrow> nat" where
  "char_type_count cs =
     (if lowercase cs then 1 else 0) + (if uppercase cs then 1 else 0) +
     (if digits cs then 1 else 0) + (if special cs then 1 else 0)"

definition letter_triples :: "string list" where
  "letter_triples =
     [''abc'', ''bcd'', ''cde'', ''def'', ''efg'', ''fgh'', ''ghi'', ''hij'', ''ijk'', ''jkl'',
      ''klm'', ''lmn'', ''mno'', ''nop'', ''opq'', ''pqr'', ''qrs'', ''rst'', ''stu'', ''tuv'',
      ''uvw'', ''vwx'', ''wxy'', ''xyz'']"

definition digit_triples :: "string list" where
  "digit_triples = [''012'', ''123'', ''234'', ''345'', ''456'', ''567'', ''678'', ''789'']"

definition keyboard_runs :: "string list" where
  "keyboard_runs = [''qwert'', ''asdf'', ''zxcv'']"

text \<open>Lines 122 to 130: the four patterns, all searched in the lower-cased password.\<close>

definition has_simple_patterns :: "string \<Rightarrow> bool" where
  "has_simple_patterns pw =
     (re_search_repeat (str_lower pw) \<or>
      re_search_alternatives letter_triples (str_lower pw) \<or>
      re_search_alternatives digit_triples (str_lower pw) \<or>
      re_search_alternatives keyboard_runs (str_lower pw))"

text \<open>Lines 132 to 134: the first pattern again, searched in the password as given.\<close>

definition has_repeated_chars :: "string \<Rightarrow> bool" where
  "has_repeated_chars pw = re_search_repeat pw"

text \<open>The score of lines 78 to 120, one definition for each block of the source, in
  the source's order.\<close>

definition length_points :: "nat \<Rightarrow> real" where
  "length_points n =
     (if n \<ge> 16 then 35 else if n \<ge> 12 then 25 else if n \<ge> 8 then 15
      else if n \<ge> 6 then 5 else 0)"

definition diversity_points :: "char_sets \<Rightarrow> real" where
  "diversity_points cs = real (char_type_count cs) * (15 / 2)"

definition entropy_points :: "real \<Rightarrow> real" where
  "entropy_points e =
     (if e \<ge> 80 then 20 else if e \<ge> 60 then 15 else if e \<ge> 40 then 10
      else if e \<ge> 28 then 5 else 0)"

definition common_penalty :: "string \<Rightarrow> real \<Rightarrow> real" where
  "common_penalty pw score = (if is_common pw then max 0 (score - 50) else score)"

definition pattern_penalty :: "string \<Rightarrow> real \<Rightarrow> real" where
  "pattern_penalty pw score = (if has_simple_patterns pw then max 0 (score - 20) else score)"

definition practice_bonus :: "string \<Rightarrow> nat \<Rightarrow> char_sets \<Rightarrow> real \<Rightarrow> real" where
  "practice_bonus pw n cs score =
     (let score = (if n \<ge> 12 \<and> char_type_count cs \<ge> 3 then score + 10 else score);
          score = (if \<not> has_repeated_chars pw then score + 5 else score)
      in score)"

definition calculate_strength_score :: "string \<Rightarrow> nat \<Rightarrow> char_sets \<Rightarrow> real \<Rightarrow> real" where
  "calculate_strength_score pw n cs e =
     (let score = 0;
          score = score + length_points n;
          score = score + diversity_points cs;
          score = score + entropy_points e;
          score = common_penalty pw score;
          score = pattern_penalty pw score;
          score = practice_bonus pw n cs score
      in min 100 (max 0 score))"

definition determine_strength_level :: "real \<Rightarrow> string" where
  "determine_strength_level score =
     (if score \<ge> 80 then ''Very Strong''
      else if score \<ge> 60 then ''Strong''
      else if score \<ge> 40 then ''Moderate''
      else if score \<ge> 20 then ''Weak''
      else ''Very Weak'')"

text \<open>The object the constructor leaves behind (lines 42 to 48).\<close>

record analyzer =
  password :: string
  len :: nat
  sets :: char_sets
  entropy :: real
  strength_score :: real
  strength_level :: string

definition PasswordAnalyzer :: "string \<Rightarrow> analyzer" where
  "PasswordAnalyzer pw =
     (let n = length pw;
          cs = identify_char_sets pw;
          e = calculate_entropy n cs;
          sc = calculate_strength_score pw n cs e
      in \<lparr> password = pw, len = n, sets = cs, entropy = e,
           strength_score = sc, strength_level = determine_strength_level sc \<rparr>)"

subsection \<open>Crack-time estimates (lines 149 to 215)\<close>

datatype error =
    UnknownAlgorithm string  \<comment> \<open>the \<^verbatim>\<open>ValueError\<close> of line 152, with the name\<close>
  | OverflowError  \<comment> \<open>raised by \<^verbatim>\<open>/\<close> on integers whose quotient no float holds\<close>

text \<open>\<^verbatim>\<open>total_combinations / 2\<close> (line 175) divides two Python integers. The result
  is the quotient rounded to the nearest float, and Python raises
  \<^verbatim>\<open>OverflowError\<close> when that rounding reaches \<open>2 ^ 1024\<close>, which is when the
  quotient is at least \<open>2 ^ 1024 - 2 ^ 970\<close>.\<close>

definition int_true_div_2 :: "nat \<Rightarrow> error + real" where
  "int_true_div_2 n =
     (if 2 ^ 1025 - 2 ^ 971 \<le> n then Inl OverflowError else Inr (real n / 2))"

text \<open>The text \<^verbatim>\<open>_format_time\<close> returns: the label, and with it the number the
  source formats in front of the label (two decimals, or scientific notation for
  the last one).\<close>

datatype time_human =
    Instant
  | Seconds real
  | Minutes real
  | Hours real
  | Days real
  | Years real
  | Thousand_Years real
  | Million_Years real
  | Billion_Years real
  | Trillion_Years real

definition format_time :: "real \<Rightarrow> time_human" where
  "format_time seconds =
     (if seconds < 1 then Instant
      else if seconds < 60 then Seconds seconds
      else if seconds < 3600 then Minutes (seconds / 60)
      else if seconds < 86400 then Hours (seconds / 3600)
      else if seconds < 31536000 then Days (seconds / 86400)
      else if seconds < 31536000 * 1000 then Years (seconds / 31536000)
      else if seconds < 31536000 * 1000000 then Thousand_Years (seconds / (31536000 * 1000))
      else if seconds < 31536000 * 10 ^ 9 then Million_Years (seconds / (31536000 * 10 ^ 6))
      else if seconds < 31536000 * 10 ^ 12 then Billion_Years (seconds / (31536000 * 10 ^ 9))
      else Trillion_Years (seconds / (31536000 * 10 ^ 12)))"

record estimate =
  algorithm :: string
  attack_speed :: real
  combinations :: nat
  time_seconds :: real
  time_text :: time_human

definition estimate_crack_time :: "analyzer \<Rightarrow> string \<Rightarrow> error + estimate" where
  "estimate_crack_time self algo =
     (case map_of ATTACK_SPEEDS algo of
        None \<Rightarrow> Inl (UnknownAlgorithm algo)
      | Some speed \<Rightarrow>
          (let symbols = charset_size (sets self);
               symbols = (if symbols = 0 then 26 else symbols);
               total_combinations = symbols ^ len self;
               total_combinations =
                 (if is_common (password self) then 1 else total_combinations)
           in case int_true_div_2 total_combinations of
                Inl e \<Rightarrow> Inl e
              | Inr avg_attempts \<Rightarrow>
                  (let seconds = avg_attempts / speed
                   in Inr \<lparr> algorithm = algo, attack_speed = speed,
                            combinations = total_combinations, time_seconds = seconds,
                            time_text = format_time seconds \<rparr>)))"

text \<open>The list comprehension of line 215: the estimates in the order of the names; the
  first exception ends it.\<close>

fun collect :: "('a \<Rightarrow> error + 'b) \<Rightarrow> 'a list \<Rightarrow> error + 'b list" where
  "collect f [] = Inr []"
| "collect f (x # xs) =
     (case f x of
        Inl e \<Rightarrow> Inl e
      | Inr y \<Rightarrow> (case collect f xs of Inl e \<Rightarrow> Inl e | Inr ys \<Rightarrow> Inr (y # ys)))"

definition algorithms :: "string list" where
  "algorithms = [''plaintext'', ''md5'', ''sha256'', ''bcrypt'', ''argon2'']"

definition get_all_crack_times :: "analyzer \<Rightarrow> error + estimate list" where
  "get_all_crack_times self = collect (estimate_crack_time self) algorithms"

subsection \<open>Suggestions (lines 217 to 260)\<close>






subsection \<open>The entry of the endpoint \<^verbatim>\<open>/api/analyze\<close> (api.py, lines 53 to 71)\<close>

text \<open>The endpoint checks the JSON body of the request before it builds the analyzer
  (lines 55 to 71). The argument is what the body holds under the key \<^verbatim>\<open>password\<close>:
  \<open>None\<close> is a body that is empty or has no such key. The result is the error message
  of the 400 response, or the analyzer the rest of the endpoint reads. A request whose
  body is not JSON does not get this far: \<^verbatim>\<open>get_json\<close> raises and the endpoint
  answers 500, which is not modelled.\<close>

definition analyze_password_entry :: "string option \<Rightarrow> string + analyzer" where
  "analyze_password_entry data =
     (case data of
        None \<Rightarrow> Inl ''Password is required''
      | Some pw \<Rightarrow>
          if pw = [] then Inl ''Password cannot be empty'' else Inr (PasswordAnalyzer pw))"

section \<open>Basic facts about the model\<close>

lemmas char_defs = code_point_def re_lower_def re_upper_def re_digit_def re_special_def
  special_chars_def char_lower_def lower_table_def str_lower_def char_isalpha_def
  str_isalpha_def re_search_class_def

lemmas pattern_defs = has_simple_patterns_def has_repeated_chars_def
  re_search_alternatives_def letter_triples_def digit_triples_def keyboard_runs_def

text \<open>The table of \<open>char_lower\<close> holds the code points it is described by, and the
  special characters are the 32 that the entropy counts.\<close>

lemma lower_table_code_points:
  "map (code_point \<circ> fst) lower_table = [65..<91] @ [192..<215] @ [216..<223] \<and>
   list_all (\<lambda>(u, l). code_point l = code_point u + 32) lower_table"
  by (simp add: lower_table_def code_point_def upt_rec)

lemma special_chars_32: "length special_chars = 32 \<and> distinct special_chars"
  by (simp add: special_chars_def)

lemma PasswordAnalyzer_fields:
  "password (PasswordAnalyzer pw) = pw"
  "len (PasswordAnalyzer pw) = length pw"
  "sets (PasswordAnalyzer pw) = identify_char_sets pw"
  "entropy (PasswordAnalyzer pw) = calculate_entropy (length pw) (identify_char_sets pw)"
  "strength_score (PasswordAnalyzer pw) =
     calculate_strength_score pw (length pw) (identify_char_sets pw)
       (calculate_entropy (length pw) (identify_char_sets pw))"
  "strength_level (PasswordAnalyzer pw) =
     determine_strength_level (strength_score (PasswordAnalyzer pw))"
  by (simp_all add: PasswordAnalyzer_def Let_def)

lemma calculate_strength_score_unfold:
  "calculate_strength_score pw n cs e =
     min 100 (max 0 (practice_bonus pw n cs (pattern_penalty pw (common_penalty pw
       (length_points n + diversity_points cs + entropy_points e)))))"
  by (simp add: calculate_strength_score_def Let_def)

subsection \<open>The entropy thresholds, in integers\<close>

text \<open>\<open>n * log 2 c\<close> reaches \<open>k\<close> exactly when \<open>c ^ n\<close> reaches \<open>2 ^ k\<close>, so the
  entropy points of a concrete password are decided by integer arithmetic.\<close>

lemma entropy_ge_iff:
  fixes c n k :: nat
  assumes "0 < c"
  shows "(real k \<le> real n * log 2 (real c)) = (2 ^ k \<le> c ^ n)"
proof -
  have pos: "0 < real (c ^ n)" using assms by simp
  have "real n * log 2 (real c) = log 2 (real (c ^ n))"
    by (simp add: log_nat_power)
  also have "(real k \<le> log 2 (real (c ^ n))) = (2 powr real k \<le> real (c ^ n))"
    using pos by (simp only: le_log_iff [of 2, simplified])
  also have "2 powr real k = real (2 ^ k)"
    by (simp add: powr_realpow)
  finally show ?thesis
    by (simp only: of_nat_le_iff)
qed

lemma entropy_points_exec:
  "entropy_points (calculate_entropy n cs) =
     (if charset_size cs = 0 then 0
      else if 2 ^ 80 \<le> charset_size cs ^ n then 20
      else if 2 ^ 60 \<le> charset_size cs ^ n then 15
      else if 2 ^ 40 \<le> charset_size cs ^ n then 10
      else if 2 ^ 28 \<le> charset_size cs ^ n then 5 else 0)"
proof (cases "charset_size cs = 0")
  case True
  then show ?thesis by (simp add: entropy_points_def calculate_entropy_def)
next
  case False
  then have pos: "0 < charset_size cs" by simp
  have e: "calculate_entropy n cs = real n * log 2 (real (charset_size cs))"
    using False by (simp add: calculate_entropy_def)
  show ?thesis
    using False
      entropy_ge_iff [OF pos, of 80 n] entropy_ge_iff [OF pos, of 60 n]
      entropy_ge_iff [OF pos, of 40 n] entropy_ge_iff [OF pos, of 28 n]
    by (simp add: entropy_points_def e)
qed

lemmas points_defs = length_points_def diversity_points_def char_type_count_def
  entropy_points_exec charset_size_def practice_bonus_def pattern_penalty_def
  common_penalty_def

subsection \<open>The score stays between 0 and 100\<close>

lemma strength_score_range:
  "0 \<le> strength_score (PasswordAnalyzer pw) \<and> strength_score (PasswordAnalyzer pw) \<le> 100"
  by (simp add: PasswordAnalyzer_fields calculate_strength_score_unfold)

text \<open>Every score is a multiple of one half.\<close>

lemma strength_score_half_integer: "2 * strength_score (PasswordAnalyzer pw) \<in> \<int>"
proof -
  have mx: "2 * max a b \<in> \<int>" if "2 * a \<in> \<int>" "2 * b \<in> \<int>" for a b :: real
    using that by (simp add: max_def)
  have mn: "2 * min a b \<in> \<int>" if "2 * a \<in> \<int>" "2 * b \<in> \<int>" for a b :: real
    using that by (simp add: min_def)
  have ad: "2 * (a + b) \<in> \<int>" if "2 * a \<in> \<int>" "2 * b \<in> \<int>" for a b :: real
    using that by (simp add: distrib_left)
  have sb: "2 * (a - b) \<in> \<int>" if "2 * a \<in> \<int>" "2 * b \<in> \<int>" for a b :: real
    using that by (simp add: right_diff_distrib)
  have l: "2 * length_points n \<in> \<int>" for n by (simp add: length_points_def)
  have d: "2 * diversity_points cs \<in> \<int>" for cs by (simp add: diversity_points_def)
  have e: "2 * entropy_points x \<in> \<int>" for x by (simp add: entropy_points_def)
  have c: "2 * common_penalty pw s \<in> \<int>" if "2 * s \<in> \<int>" for s
    using that by (simp add: common_penalty_def mx sb)
  have p: "2 * pattern_penalty pw s \<in> \<int>" if "2 * s \<in> \<int>" for s
    using that by (simp add: pattern_penalty_def mx sb)
  have b: "2 * practice_bonus pw n cs s \<in> \<int>" if "2 * s \<in> \<int>" for s n cs
    using that by (simp add: practice_bonus_def Let_def ad)
  show ?thesis
    by (simp add: PasswordAnalyzer_fields calculate_strength_score_unfold mn mx b p c ad l d e)
qed

subsection \<open>Crack-time estimates\<close>

lemma str_lower_length: "length (str_lower s) = length s"
  by (simp add: str_lower_def)

lemma is_common_length: "is_common pw \<Longrightarrow> length pw \<le> 8"
proof -
  assume "is_common pw"
  then have "str_lower pw \<in> set COMMON_PASSWORDS" by (simp add: is_common_def)
  moreover have "\<forall>s \<in> set COMMON_PASSWORDS. length s \<le> 8"
    by (simp add: COMMON_PASSWORDS_def)
  ultimately have "length (str_lower pw) \<le> 8" by blast
  then show ?thesis by (simp add: str_lower_length)
qed

lemma symbols_ge_10:
  "10 \<le> (if charset_size cs = 0 then 26 else charset_size cs)"
  by (simp add: charset_size_def)

lemma overflow_bound: "(2::nat) ^ 1025 - 2 ^ 971 \<le> 10 ^ 309"
  by simp

lemma estimate_crack_time_unfold:
  "estimate_crack_time (PasswordAnalyzer pw) algo =
     (case map_of ATTACK_SPEEDS algo of
        None \<Rightarrow> Inl (UnknownAlgorithm algo)
      | Some speed \<Rightarrow>
          (case int_true_div_2 (if is_common pw then 1
                  else (if charset_size (identify_char_sets pw) = 0 then 26
                        else charset_size (identify_char_sets pw)) ^ length pw) of
             Inl e \<Rightarrow> Inl e
           | Inr avg \<Rightarrow>
               Inr \<lparr> algorithm = algo, attack_speed = speed,
                     combinations = (if is_common pw then 1
                        else (if charset_size (identify_char_sets pw) = 0 then 26
                              else charset_size (identify_char_sets pw)) ^ length pw),
                     time_seconds = avg / speed, time_text = format_time (avg / speed) \<rparr>))"
  by (simp add: estimate_crack_time_def PasswordAnalyzer_fields Let_def
      split: option.split sum.split)

text \<open>Only names outside the table raise \<open>UnknownAlgorithm\<close>.\<close>

lemma unknown_algorithm_rejected:
  assumes "algo \<notin> set algorithms"
  shows "estimate_crack_time self algo = Inl (UnknownAlgorithm algo)"
proof -
  have "map_of ATTACK_SPEEDS algo = None"
    using assms by (simp add: algorithms_def ATTACK_SPEEDS_def)
  then show ?thesis by (simp add: estimate_crack_time_def)
qed

lemma known_algorithm_not_rejected:
  assumes "algo \<in> set algorithms"
  shows "estimate_crack_time self algo \<noteq> Inl (UnknownAlgorithm name)"
proof -
  obtain sp where "map_of ATTACK_SPEEDS algo = Some sp"
    using assms by (auto simp: algorithms_def ATTACK_SPEEDS_def)
  then show ?thesis
    by (simp add: estimate_crack_time_def int_true_div_2_def Let_def)
qed

text \<open>A password of 309 characters or more has at least \<open>10 ^ 309\<close> combinations, and
  half of that is beyond every float: the division of line 175 raises.\<close>

lemma long_password_overflows:
  assumes long: "309 \<le> length pw" and known: "algo \<in> set algorithms"
  shows "estimate_crack_time (PasswordAnalyzer pw) algo = Inl OverflowError"
proof -
  let ?c = "if charset_size (identify_char_sets pw) = 0 then 26
            else charset_size (identify_char_sets pw)"
  have nc: "\<not> is_common pw"
    using long is_common_length [of pw] by auto
  have "(10::nat) ^ 309 \<le> 10 ^ length pw"
    using long by (intro power_increasing) simp_all
  also have "\<dots> \<le> ?c ^ length pw"
    by (intro power_mono symbols_ge_10) simp
  finally have "(10::nat) ^ 309 \<le> ?c ^ length pw" .
  with overflow_bound have big: "2 ^ 1025 - 2 ^ 971 \<le> ?c ^ length pw"
    by (rule order_trans)
  obtain sp where "map_of ATTACK_SPEEDS algo = Some sp"
    using known by (auto simp: algorithms_def ATTACK_SPEEDS_def)
  then show ?thesis
    using nc big by (simp add: estimate_crack_time_unfold int_true_div_2_def)
qed

lemma get_all_unfold:
  "get_all_crack_times (PasswordAnalyzer pw) =
     (case int_true_div_2 (if is_common pw then 1
              else (if charset_size (identify_char_sets pw) = 0 then 26
                    else charset_size (identify_char_sets pw)) ^ length pw) of
        Inl e \<Rightarrow> Inl e
      | Inr avg \<Rightarrow>
          Inr (map (\<lambda>(name, speed).
                 \<lparr> algorithm = name, attack_speed = speed,
                   combinations = (if is_common pw then 1
                      else (if charset_size (identify_char_sets pw) = 0 then 26
                            else charset_size (identify_char_sets pw)) ^ length pw),
                   time_seconds = avg / speed, time_text = format_time (avg / speed) \<rparr>)
               ATTACK_SPEEDS))"
  by (simp add: get_all_crack_times_def algorithms_def ATTACK_SPEEDS_def
      estimate_crack_time_unfold split: sum.split)

text \<open>Whenever the five estimates are returned, they come in the order of the names
  and their times do not decrease.\<close>

lemma crack_times_ordered:
  assumes "get_all_crack_times (PasswordAnalyzer pw) = Inr ests"
  shows "map algorithm ests = [''plaintext'', ''md5'', ''sha256'', ''bcrypt'', ''argon2''] \<and>
         sorted (map time_seconds ests)"
proof -
  let ?n = "if is_common pw then 1
            else (if charset_size (identify_char_sets pw) = 0 then 26
                  else charset_size (identify_char_sets pw)) ^ length pw"
  obtain avg where d: "int_true_div_2 ?n = Inr avg"
    using assms by (cases "int_true_div_2 ?n") (simp_all add: get_all_unfold)
  have avg: "0 \<le> avg"
    using d by (auto simp: int_true_div_2_def split: if_splits)
  have ests: "ests = map (\<lambda>(name, speed).
                 \<lparr> algorithm = name, attack_speed = speed, combinations = ?n,
                   time_seconds = avg / speed, time_text = format_time (avg / speed) \<rparr>)
               ATTACK_SPEEDS"
    using assms d by (simp add: get_all_unfold)
  show ?thesis
    using avg by (simp add: ests ATTACK_SPEEDS_def frac_le)
qed

text \<open>They are returned when the number of combinations is below the bound of the
  division.\<close>

lemma crack_times_returned:
  assumes "(if charset_size (identify_char_sets pw) = 0 then 26
            else charset_size (identify_char_sets pw)) ^ length pw < 2 ^ 1025 - 2 ^ 971"
  shows "\<exists>ests. get_all_crack_times (PasswordAnalyzer pw) = Inr ests"
  using assms by (simp add: get_all_unfold int_true_div_2_def)

subsection \<open>Suggestions\<close>






subsection \<open>Three equal characters in a row, by positions\<close>



subsection \<open>The passwords of the examples\<close>

lemma pass123_facts:
  "str_lower ''Pass123'' = ''pass123''"
  "identify_char_sets ''Pass123'' =
     \<lparr>lowercase = True, uppercase = True, digits = True, special = False\<rparr>"
  by (simp_all add: identify_char_sets_def char_defs)

lemma pass123_flags:
  "\<not> is_common ''Pass123''" "has_simple_patterns ''Pass123''"
  "\<not> has_repeated_chars ''Pass123''"
  by (simp_all add: pass123_facts pattern_defs is_common_def COMMON_PASSWORDS_def)

lemma pass123_score: "strength_score (PasswordAnalyzer ''Pass123'') = 45 / 2"
  by (simp add: PasswordAnalyzer_fields calculate_strength_score_unfold points_defs
      pass123_facts pass123_flags)

lemma pass123_entropy_bounds:
  "833 / 20 \<le> 7 * log 2 (62::real) \<and> 7 * log 2 (62::real) < 834 / 20"
proof -
  have lo: "real 833 \<le> real 140 * log 2 (real 62)"
    by (subst entropy_ge_iff) simp_all
  have "\<not> real 834 \<le> real 140 * log 2 (real 62)"
    by (subst entropy_ge_iff) simp_all
  with lo show ?thesis by simp
qed

lemma a_facts:
  "str_lower ''a'' = ''a''"
  "identify_char_sets ''a'' =
     \<lparr>lowercase = True, uppercase = False, digits = False, special = False\<rparr>"
  by (simp_all add: identify_char_sets_def char_defs)

lemma a_score: "strength_score (PasswordAnalyzer ''a'') = 25 / 2"
  by (simp add: PasswordAnalyzer_fields calculate_strength_score_unfold points_defs a_facts
      pattern_defs is_common_def COMMON_PASSWORDS_def)

lemma twenty_five_halves_not_int: "(25 / 2 :: real) \<notin> \<int>"
proof
  assume "(25 / 2 :: real) \<in> \<int>"
  then obtain k :: int where "(25 / 2 :: real) = of_int k" by (auto elim: Ints_cases)
  then have "real_of_int (2 * k) = real_of_int 25" by simp
  then have "2 * k = 25" by (simp only: of_int_eq_iff)
  then show False by presburger
qed

lemma password_facts:
  "str_lower ''password'' = ''password''"
  "identify_char_sets ''password'' =
     \<lparr>lowercase = True, uppercase = False, digits = False, special = False\<rparr>"
  by (simp_all add: identify_char_sets_def char_defs)

lemma password_flags:
  "is_common ''password''" "\<not> has_simple_patterns ''password''"
  "\<not> has_repeated_chars ''password''"
  by (simp_all add: password_facts pattern_defs is_common_def COMMON_PASSWORDS_def)

lemma password_score: "strength_score (PasswordAnalyzer ''password'') = 5"
  by (simp add: PasswordAnalyzer_fields calculate_strength_score_unfold points_defs
      password_facts password_flags)

lemma passphrase_facts:
  "str_lower ''correct-horse-battery-staple-2024'' = ''correct-horse-battery-staple-2024''"
  "identify_char_sets ''correct-horse-battery-staple-2024'' =
     \<lparr>lowercase = True, uppercase = False, digits = True, special = True\<rparr>"
  "length ''correct-horse-battery-staple-2024'' = 33"
  by (simp_all add: identify_char_sets_def char_defs)

lemma passphrase_flags:
  "\<not> is_common ''correct-horse-battery-staple-2024''"
  "\<not> has_simple_patterns ''correct-horse-battery-staple-2024''"
  "\<not> has_repeated_chars ''correct-horse-battery-staple-2024''"
  by (simp_all add: passphrase_facts(1) pattern_defs is_common_def COMMON_PASSWORDS_def)

lemma passphrase_score:
  "strength_score (PasswordAnalyzer ''correct-horse-battery-staple-2024'') = 185 / 2"
  by (simp add: PasswordAnalyzer_fields calculate_strength_score_unfold points_defs
      passphrase_facts passphrase_flags)

lemma empty_facts:
  "str_lower [] = []"
  "identify_char_sets [] =
     \<lparr>lowercase = False, uppercase = False, digits = False, special = False\<rparr>"
  "\<not> is_common []" "\<not> has_simple_patterns []" "\<not> has_repeated_chars []"
  by (simp_all add: identify_char_sets_def char_defs pattern_defs is_common_def
      COMMON_PASSWORDS_def)





lemma capital_password_common: "str_lower ''Password'' \<in> set COMMON_PASSWORDS"
  by (simp add: char_defs COMMON_PASSWORDS_def)



section \<open>The claims\<close>

subsection \<open>C1: the analysis of Pass123\<close>

text \<open>C1, as stated, fails: the password \<^verbatim>\<open>Pass123\<close> does not score 42 and its level is
  not Moderate, because its lower-cased form contains the digit run \<^verbatim>\<open>123\<close> and the
  simple-pattern penalty of line 112 fires.\<close>

theorem pass123_not_moderate:
  "strength_score (PasswordAnalyzer ''Pass123'') \<noteq> 42 \<and>
   \<lfloor>strength_score (PasswordAnalyzer ''Pass123'')\<rfloor> \<noteq> 42 \<and>
   strength_level (PasswordAnalyzer ''Pass123'') \<noteq> ''Moderate''"
  by (simp add: PasswordAnalyzer_fields(6) pass123_score determine_strength_level_def)

text \<open>C1, amended: analysing \<^verbatim>\<open>Pass123\<close> yields length 7, the classes lowercase,
  uppercase and digits without special, the entropy \<open>7 * log 2 62\<close> (between 41.65 and
  41.70 bits) and the subtotal 37.5 (5 for the length, 22.5 for three classes, 10 for
  the entropy). The password is not common, has no character three times in a row, but has
  a simple pattern: the penalty takes the subtotal to 17.5, the no-repeat bonus to 22.5.
  The integer part of the score is 22 and the level is Weak.\<close>

theorem pass123_analysis:
  "len (PasswordAnalyzer ''Pass123'') = 7 \<and>
   sets (PasswordAnalyzer ''Pass123'') =
     \<lparr>lowercase = True, uppercase = True, digits = True, special = False\<rparr> \<and>
   entropy (PasswordAnalyzer ''Pass123'') = 7 * log 2 62 \<and>
   833 / 20 \<le> entropy (PasswordAnalyzer ''Pass123'') \<and>
   entropy (PasswordAnalyzer ''Pass123'') < 834 / 20 \<and>
   length_points (len (PasswordAnalyzer ''Pass123'')) = 5 \<and>
   diversity_points (sets (PasswordAnalyzer ''Pass123'')) = 45 / 2 \<and>
   entropy_points (entropy (PasswordAnalyzer ''Pass123'')) = 10 \<and>
   \<not> is_common ''Pass123'' \<and>
   has_simple_patterns ''Pass123'' \<and>
   \<not> has_repeated_chars ''Pass123'' \<and>
   pattern_penalty ''Pass123'' (common_penalty ''Pass123'' (5 + 45 / 2 + 10)) = 35 / 2 \<and>
   practice_bonus ''Pass123'' 7 (sets (PasswordAnalyzer ''Pass123'')) (35 / 2) = 45 / 2 \<and>
   \<lfloor>strength_score (PasswordAnalyzer ''Pass123'')\<rfloor> = 22 \<and>
   strength_level (PasswordAnalyzer ''Pass123'') = ''Weak''"
proof -
  have e: "entropy (PasswordAnalyzer ''Pass123'') = 7 * log 2 62"
    by (simp add: PasswordAnalyzer_fields pass123_facts calculate_entropy_def charset_size_def)
  have p: "length_points (len (PasswordAnalyzer ''Pass123'')) = 5"
    "diversity_points (sets (PasswordAnalyzer ''Pass123'')) = 45 / 2"
    "entropy_points (entropy (PasswordAnalyzer ''Pass123'')) = 10"
    by (simp_all add: PasswordAnalyzer_fields points_defs pass123_facts)
  have q: "pattern_penalty ''Pass123'' (common_penalty ''Pass123'' (5 + 45 / 2 + 10)) = 35 / 2"
    "practice_bonus ''Pass123'' 7 (sets (PasswordAnalyzer ''Pass123'')) (35 / 2) = 45 / 2"
    by (simp_all add: PasswordAnalyzer_fields points_defs pass123_facts pass123_flags)
  have s: "\<lfloor>strength_score (PasswordAnalyzer ''Pass123'')\<rfloor> = 22"
    "strength_level (PasswordAnalyzer ''Pass123'') = ''Weak''"
    by (simp_all add: PasswordAnalyzer_fields(6) pass123_score determine_strength_level_def)
  have f: "len (PasswordAnalyzer ''Pass123'') = 7"
    "sets (PasswordAnalyzer ''Pass123'') =
       \<lparr>lowercase = True, uppercase = True, digits = True, special = False\<rparr>"
    by (simp_all add: PasswordAnalyzer_fields pass123_facts)
  show ?thesis
    unfolding e using pass123_entropy_bounds p q s f pass123_flags
    by (simp only: e simp_thms)
qed

subsection \<open>C2: the score is an integer between 0 and 100\<close>

text \<open>C2: for every password the strength score is an integer in the range 0 to 100.
  The range holds (\<open>strength_score_range\<close>), the integrality does not: the diversity
  points are 7.5 for each class and nothing rounds the sum, so a score is a multiple of
  one half (\<open>strength_score_half_integer\<close>). The one-letter password \<^verbatim>\<open>a\<close> scores
  12.5, which is not an integer.\<close>

theorem score_of_a_not_integer:
  "strength_score (PasswordAnalyzer ''a'') = 25 / 2 \<and>
   strength_score (PasswordAnalyzer ''a'') \<notin> \<int>"
  by (simp add: a_score twenty_five_halves_not_int)

subsection \<open>C3: the level of a score\<close>

text \<open>C3, as stated, fails: a score of 79 is in the band from 60 and its level is
  Strong, not Moderate.\<close>

theorem level_of_79:
  "determine_strength_level 79 = ''Strong'' \<and> determine_strength_level 79 \<noteq> ''Moderate''"
  by (simp add: determine_strength_level_def)

text \<open>C3, amended: the level is a function of the score alone, with disjoint bands: from
  80 Very Strong, from 60 Strong, from 40 Moderate, from 20 Weak, below 20 Very Weak. A
  score of 79 maps to Strong and a score of 80 to Very Strong.\<close>

theorem level_bands:
  "(determine_strength_level score = ''Very Strong'') = (80 \<le> score) \<and>
   (determine_strength_level score = ''Strong'') = (60 \<le> score \<and> score < 80) \<and>
   (determine_strength_level score = ''Moderate'') = (40 \<le> score \<and> score < 60) \<and>
   (determine_strength_level score = ''Weak'') = (20 \<le> score \<and> score < 40) \<and>
   (determine_strength_level score = ''Very Weak'') = (score < 20) \<and>
   determine_strength_level 79 = ''Strong'' \<and>
   determine_strength_level 80 = ''Very Strong''"
  by (auto simp: determine_strength_level_def)

subsection \<open>C4: the order of the crack times\<close>

text \<open>C4: for every password the five estimates are returned in the order plaintext, md5,
  sha256, bcrypt, argon2 with times that do not decrease. Where the estimates are
  returned they are so (\<open>crack_times_ordered\<close>), and they are returned for every password
  with fewer than \<open>2 ^ 1025 - 2 ^ 971\<close> combinations (\<open>crack_times_returned\<close>). For a
  longer password there are no estimates: for 400 times the letter \<^verbatim>\<open>a\<close> the division
  of line 175 raises \<^verbatim>\<open>OverflowError\<close> at the first algorithm.\<close>

theorem all_crack_times_of_long_password:
  "get_all_crack_times (PasswordAnalyzer (replicate 400 CHR ''a'')) = Inl OverflowError"
  by (simp add: get_all_crack_times_def algorithms_def long_password_overflows)

subsection \<open>C5: a common password is cracked at once\<close>

text \<open>C5: for every password whose lower-cased form is in the set of common passwords,
  the estimate of each of the five algorithms has exactly 1 combination, the time
  \<open>0.5 / attack_speed\<close> and the text Instant.\<close>

theorem common_password_instant:
  assumes "str_lower pw \<in> set COMMON_PASSWORDS"
  shows "map (estimate_crack_time (PasswordAnalyzer pw))
           [''plaintext'', ''md5'', ''sha256'', ''bcrypt'', ''argon2''] =
         map (\<lambda>(name, speed).
                Inr \<lparr> algorithm = name, attack_speed = speed, combinations = 1,
                      time_seconds = (1 / 2) / speed, time_text = Instant \<rparr>)
           ATTACK_SPEEDS"
proof -
  have c: "is_common pw" using assms by (simp add: is_common_def)
  show ?thesis
    by (simp add: ATTACK_SPEEDS_def estimate_crack_time_unfold c int_true_div_2_def
        format_time_def)
qed

text \<open>C5 at the password \<^verbatim>\<open>Password\<close>, which is common after lower-casing.\<close>

theorem common_password_instant_witness:
  "str_lower ''Password'' \<in> set COMMON_PASSWORDS \<and>
   map (estimate_crack_time (PasswordAnalyzer ''Password''))
     [''plaintext'', ''md5'', ''sha256'', ''bcrypt'', ''argon2''] =
   [Inr \<lparr>algorithm = ''plaintext'', attack_speed = 10 ^ 15, combinations = 1,
          time_seconds = (1 / 2) / 10 ^ 15, time_text = Instant\<rparr>,
    Inr \<lparr>algorithm = ''md5'', attack_speed = 18 * 10 ^ 10, combinations = 1,
          time_seconds = (1 / 2) / (18 * 10 ^ 10), time_text = Instant\<rparr>,
    Inr \<lparr>algorithm = ''sha256'', attack_speed = 65 * 10 ^ 9, combinations = 1,
          time_seconds = (1 / 2) / (65 * 10 ^ 9), time_text = Instant\<rparr>,
    Inr \<lparr>algorithm = ''bcrypt'', attack_speed = 85 * 10 ^ 3, combinations = 1,
          time_seconds = (1 / 2) / (85 * 10 ^ 3), time_text = Instant\<rparr>,
    Inr \<lparr>algorithm = ''argon2'', attack_speed = 10 ^ 3, combinations = 1,
          time_seconds = (1 / 2) / 10 ^ 3, time_text = Instant\<rparr>]"
  using common_password_instant [OF capital_password_common] capital_password_common
  by (simp add: ATTACK_SPEEDS_def)

subsection \<open>C6: unknown and known algorithm names\<close>

text \<open>C6: a name outside the five raises \<open>UnknownAlgorithm\<close>
  (\<open>unknown_algorithm_rejected\<close>) and a known name never does
  (\<open>known_algorithm_not_rejected\<close>), but a known name does not always return: for 400
  times the letter \<^verbatim>\<open>a\<close> and the algorithm md5 the division of line 175 raises
  \<^verbatim>\<open>OverflowError\<close>.\<close>

theorem md5_estimate_of_long_password:
  "estimate_crack_time (PasswordAnalyzer (replicate 400 CHR ''a'')) ''md5'' = Inl OverflowError"
  by (rule long_password_overflows) (simp_all add: algorithms_def)

subsection \<open>C7: when the affirmation is the only suggestion\<close>



subsection \<open>C8: the two spot checks\<close>

text \<open>C8: the password \<^verbatim>\<open>password\<close> scores at most 5, and the passphrase
  \<^verbatim>\<open>correct-horse-battery-staple-2024\<close> scores exactly 100. The first holds with the
  score 5. The second does not: the passphrase has 33 characters of three classes and
  scores 35 + 22.5 + 20 + 10 + 5 = 92.5.\<close>

theorem spot_check_scores:
  "strength_score (PasswordAnalyzer ''password'') = 5 \<and>
   strength_score (PasswordAnalyzer ''correct-horse-battery-staple-2024'') = 185 / 2 \<and>
   strength_score (PasswordAnalyzer ''correct-horse-battery-staple-2024'') \<noteq> 100"
  by (simp add: password_score passphrase_score)

subsection \<open>C9: the empty password\<close>

text \<open>C9: the class accepts the empty string, which only the endpoint rejects: no class
  is present, the entropy is 0, the score is 5, which is the bonus for no repeated
  character on a sum of 0, the level is Very Weak, and each of the five estimates falls
  back to 26 symbols, has \<open>26 ^ 0 = 1\<close> combination and the text Instant.\<close>

theorem empty_password_analysis:
  "analyze_password_entry (Some []) = Inl ''Password cannot be empty'' \<and>
   sets (PasswordAnalyzer []) =
     \<lparr>lowercase = False, uppercase = False, digits = False, special = False\<rparr> \<and>
   entropy (PasswordAnalyzer []) = 0 \<and>
   pattern_penalty [] (common_penalty []
     (length_points 0 + diversity_points (sets (PasswordAnalyzer [])) + entropy_points 0)) = 0 \<and>
   practice_bonus [] 0 (sets (PasswordAnalyzer [])) 0 = 5 \<and>
   strength_score (PasswordAnalyzer []) = 5 \<and>
   strength_level (PasswordAnalyzer []) = ''Very Weak'' \<and>
   charset_size (sets (PasswordAnalyzer [])) = 0 \<and>
   get_all_crack_times (PasswordAnalyzer []) =
     Inr [\<lparr>algorithm = ''plaintext'', attack_speed = 10 ^ 15, combinations = 26 ^ 0,
            time_seconds = (1 / 2) / 10 ^ 15, time_text = Instant\<rparr>,
          \<lparr>algorithm = ''md5'', attack_speed = 18 * 10 ^ 10, combinations = 26 ^ 0,
            time_seconds = (1 / 2) / (18 * 10 ^ 10), time_text = Instant\<rparr>,
          \<lparr>algorithm = ''sha256'', attack_speed = 65 * 10 ^ 9, combinations = 26 ^ 0,
            time_seconds = (1 / 2) / (65 * 10 ^ 9), time_text = Instant\<rparr>,
          \<lparr>algorithm = ''bcrypt'', attack_speed = 85 * 10 ^ 3, combinations = 26 ^ 0,
            time_seconds = (1 / 2) / (85 * 10 ^ 3), time_text = Instant\<rparr>,
          \<lparr>algorithm = ''argon2'', attack_speed = 10 ^ 3, combinations = 26 ^ 0,
            time_seconds = (1 / 2) / 10 ^ 3, time_text = Instant\<rparr>]"
proof -
  have s: "strength_score (PasswordAnalyzer []) = 5"
    by (simp add: PasswordAnalyzer_fields calculate_strength_score_unfold points_defs
        empty_facts)
  have l: "strength_level (PasswordAnalyzer []) = ''Very Weak''"
    by (simp add: PasswordAnalyzer_fields(6) s determine_strength_level_def)
  have f: "sets (PasswordAnalyzer []) =
      \<lparr>lowercase = False, uppercase = False, digits = False, special = False\<rparr>"
    "entropy (PasswordAnalyzer []) = 0"
    "charset_size (sets (PasswordAnalyzer [])) = 0"
    by (simp_all add: PasswordAnalyzer_fields empty_facts calculate_entropy_def charset_size_def)
  have p: "pattern_penalty [] (common_penalty []
      (length_points 0 + diversity_points (sets (PasswordAnalyzer [])) + entropy_points 0)) = 0"
    "practice_bonus [] 0 (sets (PasswordAnalyzer [])) 0 = 5"
    by (simp_all add: f(1) length_points_def diversity_points_def char_type_count_def
        entropy_points_def practice_bonus_def pattern_penalty_def common_penalty_def empty_facts)
  have t: "get_all_crack_times (PasswordAnalyzer []) =
     Inr [\<lparr>algorithm = ''plaintext'', attack_speed = 10 ^ 15, combinations = 26 ^ 0,
            time_seconds = (1 / 2) / 10 ^ 15, time_text = Instant\<rparr>,
          \<lparr>algorithm = ''md5'', attack_speed = 18 * 10 ^ 10, combinations = 26 ^ 0,
            time_seconds = (1 / 2) / (18 * 10 ^ 10), time_text = Instant\<rparr>,
          \<lparr>algorithm = ''sha256'', attack_speed = 65 * 10 ^ 9, combinations = 26 ^ 0,
            time_seconds = (1 / 2) / (65 * 10 ^ 9), time_text = Instant\<rparr>,
          \<lparr>algorithm = ''bcrypt'', attack_speed = 85 * 10 ^ 3, combinations = 26 ^ 0,
            time_seconds = (1 / 2) / (85 * 10 ^ 3), time_text = Instant\<rparr>,
          \<lparr>algorithm = ''argon2'', attack_speed = 10 ^ 3, combinations = 26 ^ 0,
            time_seconds = (1 / 2) / 10 ^ 3, time_text = Instant\<rparr>]"
    by (simp add: get_all_unfold empty_facts charset_size_def int_true_div_2_def
        ATTACK_SPEEDS_def format_time_def)
  have a: "analyze_password_entry (Some []) = Inl ''Password cannot be empty''"
    by (simp add: analyze_password_entry_def)
  from a s l f p t show ?thesis by (simp only: simp_thms)
qed

subsection \<open>C10: a run in the lower-cased password\<close>




end
